theory Spec2Isabelle
  imports Complex_Main "HOL-Library.Word"
begin

section \<open>JavaScript strings\<close>

text \<open>
  A JavaScript string is a sequence of UTF-16 code units: \<open>length\<close> counts code units and
  \<open>slice\<close> cuts between them. A string is therefore a list of 16-bit words. \<open>js\<close> turns an
  ASCII literal into such a string.
\<close>

type_synonym jsstring = "16 word list"

definition js :: "string \<Rightarrow> jsstring" where
  "js s = map (\<lambda>c. of_nat (of_char c)) s"

text \<open>\<open>hay.includes(needle)\<close>: the needle occurs at some offset of the haystack.\<close>

fun includes_js :: "jsstring \<Rightarrow> jsstring \<Rightarrow> bool" where
  "includes_js [] needle = (needle = [])"
| "includes_js (x # xs) needle =
     (take (length needle) (x # xs) = needle \<or> includes_js xs needle)"

text \<open>
  \<open>n.toString()\<close> for an integral number: the decimal digits, with a leading minus sign
  below zero. (JavaScript switches to exponent notation from \<open>1e21\<close> on; a clock reading
  in milliseconds stays far below that.)
\<close>

definition digit :: "nat \<Rightarrow> 16 word" where
  "digit d = of_nat (48 + d)"

function digits :: "nat \<Rightarrow> jsstring" where
  "digits n = (if n < 10 then [digit n] else digits (n div 10) @ [digit (n mod 10)])"
  by pat_completeness auto
termination
  by (relation "measure (\<lambda>n. n)") auto

declare digits.simps [simp del]

definition toString :: "int \<Rightarrow> jsstring" where
  "toString i = (if i < 0 then js ''-'' @ digits (nat (- i)) else digits (nat i))"

section \<open>The conversation store (ChatContext)\<close>

datatype role = User | Assistant

datatype detail = Low | High | Auto

datatype part =
    is_text: TextPart jsstring
  | ImageUrlPart jsstring "detail option"

datatype content = Text jsstring | Parts "part list"

record message =
  id_m :: jsstring
  role :: role
  content :: content

record conversation =
  id_c :: jsstring
  title :: jsstring
  messages :: "message list"
  model :: jsstring

text \<open>
  The three \<open>useState\<close> cells of \<open>ChatProvider\<close>.
\<close>

record chat_state =
  conversations :: "conversation list"
  currentConversation :: "conversation option"
  selectedModel :: jsstring

definition initial :: chat_state where
  "initial = \<lparr>conversations = [], currentConversation = None,
              selectedModel = js ''gpt-4o-mini''\<rparr>"

text \<open>
  The operations are closures that a render of \<open>ChatProvider\<close> creates. A closure reads
  the constants \<open>conversations\<close>, \<open>currentConversation\<close> and \<open>selectedModel\<close> of its own
  render: the state \<open>r\<close> that render showed. Its setters act on the latest state \<open>s\<close>,
  which differs from \<open>r\<close> when other calls were made since that render (in the same event
  handler, or before a continuation that still holds the closure runs). The collection
  is always set with an updater on \<open>prev\<close>, so it is computed from \<open>s\<close>; the current
  conversation and the selected model are set with values computed from \<open>r\<close>.
  Every operation below takes the render \<open>r\<close> first and the latest state \<open>s\<close> last.
\<close>

text \<open>\<open>prev.map((c) => (c.id === updated.id ? updated : c))\<close>\<close>

definition replaceById :: "conversation \<Rightarrow> conversation list \<Rightarrow> conversation list" where
  "replaceById updated prev = map (\<lambda>c. if id_c c = id_c updated then updated else c) prev"

text \<open>\<open>createConversation\<close>; \<open>now\<close> is the value \<open>Date.now()\<close> returns.\<close>

definition createConversation :: "chat_state \<Rightarrow> int \<Rightarrow> chat_state \<Rightarrow> chat_state" where
  "createConversation r now s =
     (let newConv = \<lparr>id_c = toString now, title = js ''New Chat'', messages = [],
                      model = selectedModel r\<rparr>
      in s\<lparr>conversations := newConv # conversations s,
            currentConversation := Some newConv\<rparr>)"

text \<open>The text \<open>addMessage\<close> extracts for the title. \<open>find\<close> returns text parts only.\<close>

definition messageText :: "message \<Rightarrow> jsstring" where
  "messageText m =
     (case content m of
        Text t \<Rightarrow> t
      | Parts ps \<Rightarrow>
          (case find is_text ps of
             Some (TextPart t) \<Rightarrow> t
           | _ \<Rightarrow> js ''Image''))"

text \<open>\<open>messageText.slice(0, 30) + (messageText.length > 30 ? "..." : "")\<close>\<close>

definition truncated :: "jsstring \<Rightarrow> jsstring" where
  "truncated t = take 30 t @ (if length t > 30 then js ''...'' else [])"

definition addMessage :: "chat_state \<Rightarrow> message \<Rightarrow> chat_state \<Rightarrow> chat_state" where
  "addMessage r m s =
     (case currentConversation r of
        None \<Rightarrow> s
      | Some cur \<Rightarrow>
          (let updated = cur\<lparr>messages := messages cur @ [m],
                             title := (if length (messages cur) = 0 \<and> role m = User
                                       then truncated (messageText m)
                                       else title cur)\<rparr>
           in s\<lparr>currentConversation := Some updated,
                 conversations := replaceById updated (conversations s)\<rparr>))"

definition updateLastMessage :: "chat_state \<Rightarrow> content \<Rightarrow> chat_state \<Rightarrow> chat_state" where
  "updateLastMessage r c s =
     (case currentConversation r of
        None \<Rightarrow> s
      | Some cur \<Rightarrow>
          (let ms = messages cur;
               ms' = (if length ms > 0
                      then ms[length ms - 1 := (ms ! (length ms - 1))\<lparr>content := c\<rparr>]
                      else ms);
               updated = cur\<lparr>messages := ms'\<rparr>
           in s\<lparr>currentConversation := Some updated,
                 conversations := replaceById updated (conversations s)\<rparr>))"

definition selectConversation :: "chat_state \<Rightarrow> jsstring \<Rightarrow> chat_state \<Rightarrow> chat_state" where
  "selectConversation r i s =
     (case find (\<lambda>c. id_c c = i) (conversations r) of
        None \<Rightarrow> s
      | Some conv \<Rightarrow> s\<lparr>currentConversation := Some conv, selectedModel := model conv\<rparr>)"

definition deleteConversation :: "chat_state \<Rightarrow> jsstring \<Rightarrow> chat_state \<Rightarrow> chat_state" where
  "deleteConversation r i s =
     s\<lparr>conversations := filter (\<lambda>c. id_c c \<noteq> i) (conversations s),
       currentConversation :=
         (case currentConversation r of
            None \<Rightarrow> currentConversation s
          | Some cur \<Rightarrow> if id_c cur = i then None else currentConversation s)\<rparr>"

definition clearCurrentConversation :: "chat_state \<Rightarrow> chat_state \<Rightarrow> chat_state" where
  "clearCurrentConversation r s =
     (case currentConversation r of
        None \<Rightarrow> s
      | Some cur \<Rightarrow>
          (let clearedConversation = cur\<lparr>messages := [], title := js ''New Chat''\<rparr>
           in s\<lparr>currentConversation := Some clearedConversation,
                 conversations := replaceById clearedConversation (conversations s)\<rparr>))"

text \<open>\<open>setSelectedModel\<close> is the setter itself; it reads nothing from a render.\<close>

definition setSelectedModel :: "jsstring \<Rightarrow> chat_state \<Rightarrow> chat_state" where
  "setSelectedModel m s = s\<lparr>selectedModel := m\<rparr>"

subsection \<open>Sequences of operations\<close>

datatype op =
    CreateConversation int
  | AddMessage message
  | UpdateLastMessage content
  | SelectConversation jsstring
  | DeleteConversation jsstring
  | ClearCurrentConversation
  | SetSelectedModel jsstring

text \<open>One call, through the closure of the render \<open>r\<close>, on the latest state \<open>s\<close>.\<close>

fun step :: "chat_state \<Rightarrow> op \<Rightarrow> chat_state \<Rightarrow> chat_state" where
  "step r (CreateConversation now) s = createConversation r now s"
| "step r (AddMessage m) s = addMessage r m s"
| "step r (UpdateLastMessage c) s = updateLastMessage r c s"
| "step r (SelectConversation i) s = selectConversation r i s"
| "step r (DeleteConversation i) s = deleteConversation r i s"
| "step r ClearCurrentConversation s = clearCurrentConversation r s"
| "step r (SetSelectedModel m) s = setSelectedModel m s"

text \<open>
  What happens to the store: the provider renders, which commits the latest state and
  creates closures over it, or an operation is called through the closure of one of the
  renders so far. \<open>Call k a\<close> is the operation \<open>a\<close> called through the closure of render
  number \<open>k\<close> (the first render is number 0).
\<close>

datatype event = Render | Call nat op

text \<open>
  The state after a sequence of events; \<open>rs\<close> lists the states of the renders so far,
  the oldest first. A call that names a render which has not happened is no call.
\<close>

fun exec :: "event list \<Rightarrow> chat_state list \<Rightarrow> chat_state \<Rightarrow> chat_state" where
  "exec [] rs s = s"
| "exec (Render # es) rs s = exec es (rs @ [s]) s"
| "exec (Call k a # es) rs s =
     exec es rs (if k < length rs then step (rs ! k) a s else s)"

text \<open>The store starts with the initial state, rendered once.\<close>

definition run :: "event list \<Rightarrow> chat_state" where
  "run es = exec es [initial] initial"

text \<open>The current conversation, when there is one, is a member of the collection.\<close>

definition current_member :: "chat_state \<Rightarrow> bool" where
  "current_member s =
     (case currentConversation s of None \<Rightarrow> True | Some c \<Rightarrow> c \<in> set (conversations s))"

text \<open>
  For event sequences whose \<open>createConversation\<close> calls each read a clock value whose
  decimal rendering is not yet an identifier in the collection.
\<close>

fun fresh_ids :: "event list \<Rightarrow> chat_state list \<Rightarrow> chat_state \<Rightarrow> bool" where
  "fresh_ids [] rs s = True"
| "fresh_ids (Render # es) rs s = fresh_ids es (rs @ [s]) s"
| "fresh_ids (Call k a # es) rs s =
     (if k < length rs
      then (case a of
              CreateConversation now \<Rightarrow> toString now \<notin> set (map id_c (conversations s))
            | _ \<Rightarrow> True)
           \<and> fresh_ids es rs (step (rs ! k) a s)
      else fresh_ids es rs s)"

text \<open>
  The title as the specification words it, for comparison with the code: the text of the
  first user-authored message of the sequence, cut to 30 code units with an ellipsis when
  longer, \<open>Image\<close> when that message is a part list without a text part, and the title of
  the fresh conversation when no message is user-authored.
\<close>

fun text_parts :: "part list \<Rightarrow> jsstring list" where
  "text_parts [] = []"
| "text_parts (TextPart t # ps) = t # text_parts ps"
| "text_parts (ImageUrlPart u d # ps) = text_parts ps"

definition claimed_title :: "message list \<Rightarrow> jsstring" where
  "claimed_title msgs =
     (case find (\<lambda>m. role m = User) msgs of
        None \<Rightarrow> js ''New Chat''
      | Some m \<Rightarrow>
          (case content m of
             Text t \<Rightarrow> take 30 t @ (if 30 < length t then js ''...'' else [])
           | Parts ps \<Rightarrow>
               (case text_parts ps of
                  [] \<Rightarrow> js ''Image''
                | t # _ \<Rightarrow> take 30 t @ (if 30 < length t then js ''...'' else []))))"

section \<open>The completion client (services/openai.ts)\<close>

subsection \<open>Numbers and JSON documents\<close>

text \<open>
  A JavaScript \<open>number\<close> is a double: a finite value, \<open>NaN\<close> or an infinity. Every finite
  double is a rational; the code below only tests a number for falsiness and hands it to
  \<open>JSON.stringify\<close>, so no rounding is involved (\<open>-0\<close> behaves as \<open>0\<close> in both).
\<close>

datatype number = Finite rat | NaN | PosInfinity | NegInfinity

definition truthy_number :: "number \<Rightarrow> bool" where
  "truthy_number n = (case n of Finite r \<Rightarrow> r \<noteq> 0 | NaN \<Rightarrow> False | _ \<Rightarrow> True)"

text \<open>
  A JSON document, as \<open>JSON.stringify\<close> writes it and \<open>response.json()\<close> reads it. An
  object lists its properties in order; a parsed object has each key once.
\<close>

datatype json =
    JNull
  | JBool bool
  | JNumber rat
  | JString jsstring
  | JArray "json list"
  | JObject "(jsstring \<times> json) list"

text \<open>The property names of an object, in order.\<close>

fun keys :: "json \<Rightarrow> jsstring list" where
  "keys (JObject kvs) = map fst kvs"
| "keys _ = []"

text \<open>
  \<open>v?.k\<close> for the property names used here (\<open>error\<close>, \<open>message\<close>): \<open>undefined\<close> (\<open>None\<close>) on
  \<open>undefined\<close> and \<open>null\<close>, the property of an object, and \<open>undefined\<close> on a string,
  number, boolean or array, which have no property of these names.
\<close>

fun optChain :: "json option \<Rightarrow> jsstring \<Rightarrow> json option" where
  "optChain (Some (JObject kvs)) k = map_of kvs k"
| "optChain _ k = None"

fun truthy :: "json \<Rightarrow> bool" where
  "truthy JNull = False"
| "truthy (JBool b) = b"
| "truthy (JNumber r) = (r \<noteq> 0)"
| "truthy (JString s) = (s \<noteq> [])"
| "truthy (JArray xs) = True"
| "truthy (JObject kvs) = True"

text \<open>
  The message \<open>new Error(v)\<close> carries. For a string it is the string itself. For any
  other value it is what the runtime's string conversion makes of it (or the message of
  the \<open>TypeError\<close> that conversion raises); that rendering is the parameter \<open>coerce\<close>.
\<close>

fun Error_message :: "(json \<Rightarrow> jsstring) \<Rightarrow> json \<Rightarrow> jsstring" where
  "Error_message coerce (JString s) = s"
| "Error_message coerce v = coerce v"

subsection \<open>Requests and responses\<close>

datatype messageRole = SystemRole | UserRole | AssistantRole

record chatMessage =
  role_cm :: messageRole
  content_cm :: content

text \<open>\<open>ChatCompletionOptions\<close>; an optional field that is absent or \<open>undefined\<close> is \<open>None\<close>.\<close>

record chatCompletionOptions =
  model_o :: jsstring
  messages_o :: "chatMessage list"
  max_tokens :: "number option"
  temperature :: "number option"
  top_p :: "number option"
  frequency_penalty :: "number option"
  presence_penalty :: "number option"
  stream :: "bool option"

record request =
  url :: jsstring
  http_method :: jsstring
  headers :: "(jsstring \<times> jsstring) list"
  body :: "json option"

text \<open>
  A response: its status line and what \<open>response.json()\<close> settles with, the parsed body
  or the message of the rejection when the body is not JSON.
\<close>

record response =
  status :: nat
  statusText :: jsstring
  json_of :: "jsstring + json"

text \<open>\<open>response.ok\<close>, by the Fetch standard: the status is in the range 200 to 299.\<close>

definition ok :: "response \<Rightarrow> bool" where
  "ok r = (200 \<le> status r \<and> status r \<le> 299)"

text \<open>
  What \<open>fetch\<close> settles with: a rejection (transport failure) carrying a message, or a
  response. The network is a function from the request to that outcome.
\<close>

datatype settled = Rejected jsstring | Resolved response

datatype error = Error jsstring

fun message_of :: "error \<Rightarrow> jsstring" where
  "message_of (Error m) = m"

definition baseURL :: jsstring where
  "baseURL = js ''https://api.openai.com/v1''"

subsection \<open>\<open>JSON.stringify\<close> of the request body\<close>

text \<open>A number that is not finite is written as \<open>null\<close>.\<close>

fun stringify_number :: "number \<Rightarrow> json" where
  "stringify_number (Finite r) = JNumber r"
| "stringify_number _ = JNull"

fun stringify_detail :: "detail \<Rightarrow> json" where
  "stringify_detail Low = JString (js ''low'')"
| "stringify_detail High = JString (js ''high'')"
| "stringify_detail Auto = JString (js ''auto'')"

text \<open>A property whose value is \<open>undefined\<close> is left out of the object.\<close>

fun defined_props :: "(jsstring \<times> json option) list \<Rightarrow> (jsstring \<times> json) list" where
  "defined_props [] = []"
| "defined_props ((k, None) # props) = defined_props props"
| "defined_props ((k, Some v) # props) = (k, v) # defined_props props"

definition stringify_object :: "(jsstring \<times> json option) list \<Rightarrow> json" where
  "stringify_object props = JObject (defined_props props)"

fun stringify_part :: "part \<Rightarrow> json" where
  "stringify_part (TextPart t) =
     stringify_object [(js ''type'', Some (JString (js ''text''))),
                       (js ''text'', Some (JString t))]"
| "stringify_part (ImageUrlPart u d) =
     stringify_object
       [(js ''type'', Some (JString (js ''image_url''))),
        (js ''image_url'',
           Some (stringify_object [(js ''url'', Some (JString u)),
                                   (js ''detail'', map_option stringify_detail d)]))]"

fun stringify_content :: "content \<Rightarrow> json" where
  "stringify_content (Text t) = JString t"
| "stringify_content (Parts ps) = JArray (map stringify_part ps)"

fun stringify_role :: "messageRole \<Rightarrow> json" where
  "stringify_role SystemRole = JString (js ''system'')"
| "stringify_role UserRole = JString (js ''user'')"
| "stringify_role AssistantRole = JString (js ''assistant'')"

definition stringify_message :: "chatMessage \<Rightarrow> json" where
  "stringify_message m =
     stringify_object [(js ''role'', Some (stringify_role (role_cm m))),
                       (js ''content'', Some (stringify_content (content_cm m)))]"

text \<open>\<open>options.max_tokens || 4096\<close>: the default replaces every falsy value.\<close>

definition or_default :: "number option \<Rightarrow> number \<Rightarrow> number" where
  "or_default v d = (case v of None \<Rightarrow> d | Some n \<Rightarrow> if truthy_number n then n else d)"

text \<open>The object literal given to \<open>JSON.stringify\<close>, and the document it becomes.\<close>

definition requestBody :: "chatCompletionOptions \<Rightarrow> json" where
  "requestBody options =
     stringify_object
       [(js ''model'', Some (JString (model_o options))),
        (js ''messages'', Some (JArray (map stringify_message (messages_o options)))),
        (js ''max_tokens'',
           Some (stringify_number (or_default (max_tokens options) (Finite 4096)))),
        (js ''temperature'', map_option stringify_number (temperature options)),
        (js ''top_p'', map_option stringify_number (top_p options)),
        (js ''frequency_penalty'', map_option stringify_number (frequency_penalty options)),
        (js ''presence_penalty'', map_option stringify_number (presence_penalty options))]"

subsection \<open>The client\<close>

definition completionsRequest :: "jsstring \<Rightarrow> chatCompletionOptions \<Rightarrow> request" where
  "completionsRequest apiKey options =
     \<lparr>url = baseURL @ js ''/chat/completions'',
      http_method = js ''POST'',
      headers = [(js ''Content-Type'', js ''application/json''),
                 (js ''Authorization'', js ''Bearer '' @ apiKey)],
      body = Some (requestBody options)\<rparr>"

text \<open>
  The error thrown on a response that is not ok: \<open>new Error(errorMessage)\<close> with
  \<open>errorData?.error?.message || `HTTP ${response.status}: ${response.statusText}`\<close>, where
  \<open>errorData\<close> is the parsed body, or \<open>{}\<close> when the body is not JSON.
\<close>

definition errorMessage :: "(json \<Rightarrow> jsstring) \<Rightarrow> response \<Rightarrow> error" where
  "errorMessage coerce r =
     (let errorData = (case json_of r of Inl e \<Rightarrow> JObject [] | Inr v \<Rightarrow> v);
          m = optChain (optChain (Some errorData) (js ''error'')) (js ''message'')
      in case m of
           Some v \<Rightarrow>
             if truthy v then Error (Error_message coerce v)
             else Error (js ''HTTP '' @ digits (status r) @ js '': '' @ statusText r)
         | None \<Rightarrow> Error (js ''HTTP '' @ digits (status r) @ js '': '' @ statusText r))"

text \<open>
  \<open>chat.completions.create\<close>: \<open>Inl\<close> is the error the promise rejects with, \<open>Inr\<close> the
  parsed body it resolves to.
\<close>

definition chat_completions_create ::
  "(json \<Rightarrow> jsstring) \<Rightarrow> (request \<Rightarrow> settled) \<Rightarrow> jsstring \<Rightarrow> chatCompletionOptions
     \<Rightarrow> error + json" where
  "chat_completions_create coerce fetch apiKey options =
     (case fetch (completionsRequest apiKey options) of
        Rejected e \<Rightarrow> Inl (Error e)
      | Resolved r \<Rightarrow>
          if \<not> ok r then Inl (errorMessage coerce r)
          else (case json_of r of Inl e \<Rightarrow> Inl (Error e) | Inr v \<Rightarrow> Inr v))"

definition modelsRequest :: "jsstring \<Rightarrow> request" where
  "modelsRequest apiKey =
     \<lparr>url = baseURL @ js ''/models'',
      http_method = js ''GET'',
      headers = [(js ''Authorization'', js ''Bearer '' @ apiKey)],
      body = None\<rparr>"

definition models_list :: "(request \<Rightarrow> settled) \<Rightarrow> jsstring \<Rightarrow> error + json" where
  "models_list fetch apiKey =
     (case fetch (modelsRequest apiKey) of
        Rejected e \<Rightarrow> Inl (Error e)
      | Resolved r \<Rightarrow>
          if \<not> ok r then Inl (Error (js ''Failed to fetch models''))
          else (case json_of r of Inl e \<Rightarrow> Inl (Error e) | Inr v \<Rightarrow> Inr v))"

text \<open>\<open>validateApiKey\<close>: the \<open>try\<close> returns \<open>true\<close>, the \<open>catch\<close> returns \<open>false\<close>.\<close>

definition validateApiKey :: "(request \<Rightarrow> settled) \<Rightarrow> jsstring \<Rightarrow> error + bool" where
  "validateApiKey fetch apiKey =
     (case models_list fetch apiKey of
        Inr v \<Rightarrow> Inr True
      | Inl e \<Rightarrow> Inr False)"

subsection \<open>The caller's error handler (the \<open>catch\<close> block of \<open>sendMessage\<close>)\<close>

definition userFacingError :: "jsstring \<Rightarrow> jsstring \<Rightarrow> jsstring" where
  "userFacingError selModel msg =
     (if includes_js msg (js ''401'') \<or> includes_js msg (js ''Unauthorized'')
      then js ''Invalid API key. Please check your API key and try again.''
      else if includes_js msg (js ''429'')
      then js ''Rate limit exceeded. Please wait a moment and try again.''
      else if includes_js msg (js ''500'') \<or> includes_js msg (js ''502'')
              \<or> includes_js msg (js ''503'')
      then js ''OpenAI server error. Please try again later.''
      else if includes_js msg (js ''model'')
      then js ''Model '' @ [0x22] @ selModel @ [0x22]
           @ js '' is not available. Please select a different model.''
      else if msg \<noteq> [] then msg
      else js ''Something went wrong. Please try again.'')"

text \<open>
  The assistant message the handler appends; \<open>now\<close> is the value \<open>Date.now()\<close> returns.
  The content starts with the warning sign (U+26A0, U+FE0F).
\<close>

definition errorReply :: "jsstring \<Rightarrow> int \<Rightarrow> error \<Rightarrow> message" where
  "errorReply selModel now e =
     \<lparr>id_m = toString (now + 1), role = Assistant,
      content = Text ([0x26A0, 0xFE0F] @ js '' Error: ''
                      @ userFacingError selModel (message_of e))\<rparr>"

section \<open>Example inputs\<close>

definition user_hi :: message where
  "user_hi = \<lparr>id_m = js ''1700000000001'', role = User, content = Text (js ''hi'')\<rparr>"

definition assistant_answer :: message where
  "assistant_answer =
     \<lparr>id_m = js ''1700000000002'', role = Assistant, content = Text (js ''21 - B'')\<rparr>"

definition first_chat :: conversation where
  "first_chat = \<lparr>id_c = js ''1700000000000'', title = js ''hi'',
                  messages = [user_hi, assistant_answer], model = js ''gpt-4o''\<rparr>"

definition second_chat :: conversation where
  "second_chat = \<lparr>id_c = js ''1700000000005'', title = js ''New Chat'',
                   messages = [], model = js ''gpt-4o-mini''\<rparr>"

text \<open>Two conversations, the first of them current.\<close>

definition two_chats :: chat_state where
  "two_chats = \<lparr>conversations = [second_chat, first_chat],
                 currentConversation = Some first_chat,
                 selectedModel = js ''gpt-4o''\<rparr>"

text \<open>A 401 response whose body is \<open>{"error":{"message":"Incorrect API key"}}\<close>.\<close>

definition body401 :: json where
  "body401 =
     JObject [(js ''error'', JObject [(js ''message'', JString (js ''Incorrect API key''))])]"

definition response401 :: response where
  "response401 = \<lparr>status = 401, statusText = js ''Unauthorized'', json_of = Inr body401\<rparr>"

definition fetch401 :: "request \<Rightarrow> settled" where
  "fetch401 req = Resolved response401"

text \<open>The options \<open>sendMessage\<close> passes (model and messages only), and options with every field.\<close>

definition callerOptions :: chatCompletionOptions where
  "callerOptions =
     \<lparr>model_o = js ''gpt-4o-mini'',
      messages_o = [\<lparr>role_cm = UserRole, content_cm = Parts [TextPart (js ''hi'')]\<rparr>],
      max_tokens = None, temperature = None, top_p = None, frequency_penalty = None,
      presence_penalty = None, stream = None\<rparr>"

definition fullOptions :: chatCompletionOptions where
  "fullOptions =
     \<lparr>model_o = js ''gpt-4o'',
      messages_o = [\<lparr>role_cm = UserRole, content_cm = Text (js ''hi'')\<rparr>],
      max_tokens = Some (Finite 256), temperature = Some (Finite (7 / 10)),
      top_p = Some (Finite 1), frequency_penalty = Some (Finite 0),
      presence_penalty = Some (Finite 0), stream = Some True\<rparr>"

text \<open>The seven field names the specification lists for the request body.\<close>

definition claimed_fields :: "jsstring list" where
  "claimed_fields =
     [js ''model'', js ''messages'', js ''max_tokens'', js ''temperature'', js ''top_p'',
      js ''frequency_penalty'', js ''presence_penalty'']"

section \<open>Properties of the conversation store\<close>

subsection \<open>Evaluating \<open>toString\<close>\<close>

lemma digits_below_10: "n < 10 \<Longrightarrow> digits n = [digit n]"
  by (simp add: digits.simps)

lemma digits_from_10: "\<not> n < 10 \<Longrightarrow> digits n = digits (n div 10) @ [digit (n mod 10)]"
  by (subst digits.simps) simp

lemma toString_1700000000000: "toString 1700000000000 = js ''1700000000000''"
  by (simp add: toString_def digits_below_10 digits_from_10 digit_def js_def)

lemma toString_1700000000005: "toString 1700000000005 = js ''1700000000005''"
  by (simp add: toString_def digits_below_10 digits_from_10 digit_def js_def)

subsection \<open>Replacing a conversation by identifier\<close>

lemma replaceById_idem:
  "replaceById u (replaceById u cs) = replaceById u cs"
  by (induction cs) (simp_all add: replaceById_def)

lemma replaceById_member:
  "c \<in> set cs \<Longrightarrow> id_c c = id_c u \<Longrightarrow> u \<in> set (replaceById u cs)"
  by (force simp: replaceById_def)

lemma replaceById_ids: "map id_c (replaceById u cs) = map id_c cs"
  by (simp add: replaceById_def)

subsection \<open>The title after a sequence of \<open>addMessage\<close> calls\<close>

lemma find_text_parts:
  "find is_text ps = (case text_parts ps of [] \<Rightarrow> None | t # _ \<Rightarrow> Some (TextPart t))"
proof (induction ps)
  case Nil
  then show ?case by simp
next
  case (Cons p ps)
  then show ?case by (cases p) (simp_all split: list.splits)
qed

lemma truncated_Image: "truncated (js ''Image'') = js ''Image''"
  by (simp add: truncated_def js_def)

text \<open>
  When the first message of a sequence is user-authored, the title the code derives from
  it is the title the specification describes.
\<close>

lemma claimed_title_user_first:
  assumes "role m = User"
  shows "claimed_title (m # ms) = truncated (messageText m)"
proof (cases "content m")
  case (Text t)
  with assms show ?thesis
    by (simp add: claimed_title_def truncated_def messageText_def)
next
  case (Parts ps)
  show ?thesis
  proof (cases "text_parts ps")
    case Nil
    then have "find is_text ps = None" by (simp add: find_text_parts)
    with assms Parts Nil show ?thesis
      by (simp add: claimed_title_def messageText_def truncated_Image)
  next
    case (Cons t ts)
    then have "find is_text ps = Some (TextPart t)" by (simp add: find_text_parts)
    with assms Parts Cons show ?thesis
      by (simp add: claimed_title_def messageText_def truncated_def)
  qed
qed

text \<open>
  One call: the current conversation afterwards is computed from the current
  conversation of the render, whatever the latest state holds.
\<close>

lemma addMessage_current:
  assumes "currentConversation r = Some c"
  shows "currentConversation (addMessage r m s) =
           Some (c\<lparr>messages := messages c @ [m],
                   title := (if messages c = [] \<and> role m = User
                             then truncated (messageText m) else title c)\<rparr>)"
  using assms by (simp add: addMessage_def Let_def)

text \<open>
  Two calls through one closure, as \<open>sendMessage\<close> makes them for the user's message and
  for the reply: the second call starts again from the render's conversation, so the
  first message and the title it set are gone.
\<close>

lemma addMessage_twice_same_render:
  assumes "currentConversation r = Some c"
  shows "currentConversation (addMessage r m2 (addMessage r m1 s)) =
           Some (c\<lparr>messages := messages c @ [m2],
                   title := (if messages c = [] \<and> role m2 = User
                             then truncated (messageText m2) else title c)\<rparr>)"
  using assms by (rule addMessage_current)

text \<open>
  So for the calls \<open>sendMessage\<close> makes on a conversation just created (the user's
  message, a render, then the reply through the closure captured before the message was
  sent), the conversation ends with the reply alone and the title \<open>New Chat\<close>.
\<close>

lemma sendMessage_calls_keep_reply_only:
  "currentConversation
     (run [Call 0 (CreateConversation 1700000000000), Render,
           Call 1 (AddMessage user_hi), Render,
           Call 1 (AddMessage assistant_answer)])
     = Some \<lparr>id_c = js ''1700000000000'', title = js ''New Chat'',
              messages = [assistant_answer], model = js ''gpt-4o-mini''\<rparr>"
  by (simp add: run_def initial_def createConversation_def addMessage_def Let_def
      replaceById_def toString_1700000000000 user_hi_def assistant_answer_def
      messageText_def truncated_def js_def)

text \<open>
  Calls that each go through the closure of a render of the state the previous call
  left: the messages are appended in order, and only a user-authored message that
  arrives on an empty message sequence sets the title.
\<close>

lemma addMessages_current:
  "currentConversation s = Some c \<Longrightarrow>
   \<exists>c'. currentConversation (fold (\<lambda>m s. addMessage s m s) msgs s) = Some c'
        \<and> id_c c' = id_c c \<and> model c' = model c
        \<and> messages c' = messages c @ msgs
        \<and> title c' = (case messages c @ msgs of
                        [] \<Rightarrow> title c
                      | m # _ \<Rightarrow> if messages c = [] \<and> role m = User
                                 then truncated (messageText m) else title c)"
proof (induction msgs arbitrary: s c)
  case Nil
  then show ?case by (simp split: list.splits)
next
  case (Cons m msgs)
  let ?c1 = "c\<lparr>messages := messages c @ [m],
                 title := (if messages c = [] \<and> role m = User
                           then truncated (messageText m) else title c)\<rparr>"
  have cur: "currentConversation (addMessage s m s) = Some ?c1"
    using Cons.prems by (rule addMessage_current)
  from Cons.IH [OF cur] obtain c' where
    c': "currentConversation
           (fold (\<lambda>m s. addMessage s m s) msgs (addMessage s m s)) = Some c'"
      "id_c c' = id_c ?c1" "model c' = model ?c1"
      "messages c' = messages ?c1 @ msgs"
      "title c' = (case messages ?c1 @ msgs of
                        [] \<Rightarrow> title ?c1
                      | m' # _ \<Rightarrow> if messages ?c1 = [] \<and> role m' = User
                                 then truncated (messageText m') else title ?c1)"
    by blast
  have "title c' = title ?c1"
    using c'(5) by (simp split: list.splits)
  then have "title c' = (case messages c @ m # msgs of
                        [] \<Rightarrow> title c
                      | m' # _ \<Rightarrow> if messages c = [] \<and> role m' = User
                                 then truncated (messageText m') else title c)"
    by (cases "messages c") simp_all
  with c'(1-4) show ?case by simp
qed

text \<open>
  C1 (as amended). Take a store whose current conversation is fresh (title \<open>New Chat\<close>,
  no messages) and a sequence of \<open>addMessage\<close> calls, each made through the closure of a
  render of the state the call before it left (the first through a render of the
  starting state). The current conversation afterwards holds exactly these messages,
  and its title is: the title the specification describes (the text of that message,
  cut to 30 UTF-16 code units with \<open>...\<close> appended when longer, or \<open>Image\<close> for a part
  list without a text part) when the first message of the sequence is user-authored;
  and \<open>New Chat\<close>, unchanged, when the sequence is empty or its first message is
  authored by the assistant, whatever follows.
\<close>

theorem title_after_addMessages:
  assumes "currentConversation s = Some c"
    and "title c = js ''New Chat''"
    and "messages c = []"
  shows "map_option messages (currentConversation (fold (\<lambda>m s. addMessage s m s) msgs s))
           = Some msgs
       \<and> map_option title (currentConversation (fold (\<lambda>m s. addMessage s m s) msgs s))
           = Some (case msgs of
                     [] \<Rightarrow> js ''New Chat''
                   | m # _ \<Rightarrow> if role m = User then claimed_title msgs
                              else js ''New Chat'')"
proof -
  from addMessages_current [OF assms(1), of msgs] obtain c' where
    c': "currentConversation (fold (\<lambda>m s. addMessage s m s) msgs s) = Some c'"
      "messages c' = messages c @ msgs"
      "title c' = (case messages c @ msgs of
                        [] \<Rightarrow> title c
                      | m # _ \<Rightarrow> if messages c = [] \<and> role m = User
                                 then truncated (messageText m) else title c)"
    by blast
  have "title c' = (case msgs of
                           [] \<Rightarrow> js ''New Chat''
                         | m # _ \<Rightarrow> if role m = User then claimed_title msgs
                                    else js ''New Chat'')"
    using c'(3) assms(2,3) by (simp add: claimed_title_user_first split: list.splits)
  with c'(1,2) assms(3) show ?thesis by simp
qed

text \<open>
  A user message first, then the assistant's answer, each through a fresh render, on a
  conversation just created: the title is the user's text.
\<close>

theorem title_after_addMessages_witness:
  "currentConversation (createConversation initial 1700000000000 initial)
     = Some \<lparr>id_c = js ''1700000000000'', title = js ''New Chat'', messages = [],
              model = js ''gpt-4o-mini''\<rparr>
   \<and> map_option title (currentConversation
        (fold (\<lambda>m s. addMessage s m s) [user_hi, assistant_answer]
           (createConversation initial 1700000000000 initial))) = Some (js ''hi'')
   \<and> map_option messages (currentConversation
        (fold (\<lambda>m s. addMessage s m s) [user_hi, assistant_answer]
           (createConversation initial 1700000000000 initial)))
       = Some [user_hi, assistant_answer]"
proof -
  let ?c = "\<lparr>id_c = js ''1700000000000'', title = js ''New Chat'', messages = [],
              model = js ''gpt-4o-mini''\<rparr>"
  have h: "currentConversation (createConversation initial 1700000000000 initial) = Some ?c"
    by (simp add: createConversation_def initial_def Let_def toString_1700000000000)
  have t: "title ?c = js ''New Chat''" and m: "messages ?c = []" by simp_all
  have u: "role user_hi = User" by (simp add: user_hi_def)
  have "claimed_title [user_hi, assistant_answer] = js ''hi''"
    by (simp add: claimed_title_def user_hi_def) (simp add: js_def)
  with title_after_addMessages [OF h t m, of "[user_hi, assistant_answer]"] u h
  show ?thesis by simp
qed

text \<open>
  The claim as stated fails when the assistant's message comes first, each call through
  a fresh render: the first user-authored message is \<open>hi\<close>, and the title stays
  \<open>New Chat\<close>.
\<close>

theorem title_counterexample:
  "map_option title (currentConversation
       (fold (\<lambda>m s. addMessage s m s) [assistant_answer, user_hi]
          (createConversation initial 1700000000000 initial)))
     = Some (js ''New Chat'')
   \<and> claimed_title [assistant_answer, user_hi] = js ''hi''
   \<and> js ''New Chat'' \<noteq> js ''hi''"
  by (simp add: initial_def createConversation_def addMessage_def Let_def replaceById_def
      assistant_answer_def user_hi_def claimed_title_def js_def)

subsection \<open>Identifiers in the collection\<close>

lemma step_distinct_ids:
  assumes "distinct (map id_c (conversations s))"
    and "\<And>now. a = CreateConversation now
           \<Longrightarrow> toString now \<notin> set (map id_c (conversations s))"
  shows "distinct (map id_c (conversations (step r a s)))"
proof (cases a)
  case (CreateConversation now)
  with assms show ?thesis by (simp add: createConversation_def Let_def)
next
  case (AddMessage m)
  with assms(1) show ?thesis
    by (simp add: addMessage_def Let_def replaceById_ids split: option.splits)
next
  case (UpdateLastMessage c)
  with assms(1) show ?thesis
    by (simp add: updateLastMessage_def Let_def replaceById_ids split: option.splits)
next
  case (SelectConversation i)
  with assms(1) show ?thesis
    by (simp add: selectConversation_def split: option.splits)
next
  case (DeleteConversation i)
  with assms(1) show ?thesis
    by (simp add: deleteConversation_def distinct_map_filter)
next
  case ClearCurrentConversation
  with assms(1) show ?thesis
    by (simp add: clearCurrentConversation_def Let_def replaceById_ids split: option.splits)
next
  case (SetSelectedModel m)
  with assms(1) show ?thesis by (simp add: setSelectedModel_def)
qed

lemma exec_distinct_ids:
  "fresh_ids es rs s \<Longrightarrow> distinct (map id_c (conversations s))
     \<Longrightarrow> distinct (map id_c (conversations (exec es rs s)))"
proof (induction es arbitrary: rs s)
  case Nil
  then show ?case by simp
next
  case (Cons e es)
  show ?case
  proof (cases e)
    case Render
    with Cons.prems have "fresh_ids es (rs @ [s]) s" by simp
    from Cons.IH [OF this Cons.prems(2)] Render show ?thesis by simp
  next
    case (Call k a)
    show ?thesis
    proof (cases "k < length rs")
      case False
      with Cons.prems Call have "fresh_ids es rs s" by simp
      from Cons.IH [OF this Cons.prems(2)] Call False show ?thesis by simp
    next
      case True
      with Cons.prems Call have rest: "fresh_ids es rs (step (rs ! k) a s)" by simp
      have "distinct (map id_c (conversations (step (rs ! k) a s)))"
      proof (rule step_distinct_ids [OF Cons.prems(2)])
        fix now assume "a = CreateConversation now"
        with Cons.prems(1) Call True
        show "toString now \<notin> set (map id_c (conversations s))" by simp
      qed
      from Cons.IH [OF rest this] Call True show ?thesis by simp
    qed
  qed
qed

text \<open>
  C3 (as amended). In every state reached from the initial store state by a sequence of
  \<open>createConversation\<close>, \<open>addMessage\<close>, \<open>updateLastMessage\<close>, \<open>selectConversation\<close>,
  \<open>deleteConversation\<close>, \<open>clearCurrentConversation\<close> (and \<open>setSelectedModel\<close>) calls, each
  through the closure of any render so far, in which every \<open>createConversation\<close> reads a
  clock value whose decimal rendering is not the identifier of a conversation then in
  the collection, the conversations in the collection are pairwise distinct by
  identifier.
\<close>

theorem distinct_ids_when_fresh:
  "fresh_ids es [initial] initial \<Longrightarrow> distinct (map id_c (conversations (run es)))"
  unfolding run_def by (rule exec_distinct_ids) (simp_all add: initial_def)

theorem distinct_ids_when_fresh_witness:
  "fresh_ids [Call 0 (CreateConversation 1700000000000), Render,
              Call 1 (AddMessage user_hi), Render,
              Call 2 (CreateConversation 1700000000005)] [initial] initial
   \<and> distinct (map id_c (conversations
        (run [Call 0 (CreateConversation 1700000000000), Render,
              Call 1 (AddMessage user_hi), Render,
              Call 2 (CreateConversation 1700000000005)])))"
proof -
  have h: "fresh_ids [Call 0 (CreateConversation 1700000000000), Render,
              Call 1 (AddMessage user_hi), Render,
              Call 2 (CreateConversation 1700000000005)] [initial] initial"
    by (simp add: initial_def createConversation_def addMessage_def Let_def
        replaceById_def toString_1700000000000 toString_1700000000005 js_def)
  from distinct_ids_when_fresh [OF h] h show ?thesis by simp
qed

text \<open>
  Two \<open>createConversation\<close> calls that read the same millisecond give two conversations
  with the same identifier.
\<close>

theorem same_millisecond_counterexample:
  "\<not> distinct (map id_c (conversations
        (run [Call 0 (CreateConversation 1700000000000), Render,
              Call 1 (CreateConversation 1700000000000)])))"
  by (simp add: run_def initial_def createConversation_def Let_def)

subsection \<open>The current conversation and the collection\<close>

text \<open>
  Every operation writes both cells. When it is called through the closure of a render
  of the latest state itself, the current conversation stays a member of the collection.
\<close>

lemma step_current_member_own_render:
  "current_member s \<Longrightarrow> current_member (step s a s)"
proof (cases a)
  case (CreateConversation now)
  then show ?thesis by (simp add: current_member_def createConversation_def Let_def)
next
  case (AddMessage m)
  assume "current_member s"
  then show ?thesis using AddMessage
    by (auto simp: current_member_def addMessage_def Let_def replaceById_member
        split: option.splits)
next
  case (UpdateLastMessage c)
  assume "current_member s"
  then show ?thesis using UpdateLastMessage
    by (auto simp: current_member_def updateLastMessage_def Let_def replaceById_member
        split: option.splits)
next
  case (SelectConversation i)
  assume "current_member s"
  then show ?thesis using SelectConversation
    by (auto simp: current_member_def selectConversation_def find_Some_iff
        split: option.splits)
next
  case (DeleteConversation i)
  assume "current_member s"
  then show ?thesis using DeleteConversation
    by (auto simp: current_member_def deleteConversation_def split: option.splits)
next
  case ClearCurrentConversation
  assume "current_member s"
  then show ?thesis using ClearCurrentConversation
    by (auto simp: current_member_def clearCurrentConversation_def Let_def
        replaceById_member split: option.splits)
next
  case (SetSelectedModel m)
  assume "current_member s"
  then show ?thesis using SetSelectedModel
    by (auto simp: current_member_def setSelectedModel_def split: option.splits)
qed

text \<open>
  The same-render pair: \<open>deleteConversation\<close> of the current conversation and then
  \<open>addMessage\<close>, both through the closure of the render that showed it.
\<close>

lemma delete_then_addMessage_same_render:
  "currentConversation
     (run [Call 0 (CreateConversation 1700000000000), Render,
           Call 1 (DeleteConversation (js ''1700000000000'')),
           Call 1 (AddMessage user_hi)])
     = Some \<lparr>id_c = js ''1700000000000'', title = js ''hi'', messages = [user_hi],
              model = js ''gpt-4o-mini''\<rparr>
   \<and> conversations
       (run [Call 0 (CreateConversation 1700000000000), Render,
             Call 1 (DeleteConversation (js ''1700000000000'')),
             Call 1 (AddMessage user_hi)]) = []"
  by (simp add: run_def initial_def createConversation_def deleteConversation_def
      addMessage_def Let_def replaceById_def toString_1700000000000 user_hi_def
      messageText_def truncated_def js_def)

text \<open>
  C4, evaluated on the code. A conversation is created and a message sent from the
  render that shows it; the conversation is deleted and, the current conversation being
  null, a new one is created; then the reply to the message arrives and \<open>sendMessage\<close>
  appends it through the closure it captured when the message was sent. That closure
  still holds the deleted conversation and sets it current again: the current
  conversation is not null and is not a member of the collection, which holds only the
  new conversation.
\<close>

theorem late_reply_restores_deleted_conversation:
  "currentConversation
     (run [Call 0 (CreateConversation 1700000000000), Render,
           Call 1 (AddMessage user_hi), Render,
           Call 2 (DeleteConversation (js ''1700000000000'')), Render,
           Call 3 (CreateConversation 1700000000005), Render,
           Call 1 (AddMessage assistant_answer)])
     = Some \<lparr>id_c = js ''1700000000000'', title = js ''New Chat'',
              messages = [assistant_answer], model = js ''gpt-4o-mini''\<rparr>
   \<and> conversations
       (run [Call 0 (CreateConversation 1700000000000), Render,
             Call 1 (AddMessage user_hi), Render,
             Call 2 (DeleteConversation (js ''1700000000000'')), Render,
             Call 3 (CreateConversation 1700000000005), Render,
             Call 1 (AddMessage assistant_answer)])
     = [\<lparr>id_c = js ''1700000000005'', title = js ''New Chat'', messages = [],
         model = js ''gpt-4o-mini''\<rparr>]
   \<and> \<not> current_member
       (run [Call 0 (CreateConversation 1700000000000), Render,
             Call 1 (AddMessage user_hi), Render,
             Call 2 (DeleteConversation (js ''1700000000000'')), Render,
             Call 3 (CreateConversation 1700000000005), Render,
             Call 1 (AddMessage assistant_answer)])"
  by (simp add: run_def initial_def createConversation_def deleteConversation_def
      addMessage_def Let_def replaceById_def toString_1700000000000
      toString_1700000000005 user_hi_def assistant_answer_def messageText_def
      truncated_def current_member_def js_def)

subsection \<open>Deleting the current conversation\<close>

text \<open>
  With a render between the two calls, the claim of C6 holds: \<open>deleteConversation i\<close>
  through a render that shows the conversation with identifier \<open>i\<close> as current leaves
  the current conversation null and removes every conversation with that identifier,
  and \<open>selectConversation i\<close> through a render of the state after the deletion changes
  nothing.
\<close>

lemma delete_current_then_select_rerendered:
  assumes "currentConversation s = Some cur" and "id_c cur = i"
  shows "currentConversation (deleteConversation s i s) = None
       \<and> conversations (deleteConversation s i s)
           = filter (\<lambda>c. id_c c \<noteq> i) (conversations s)
       \<and> i \<notin> set (map id_c (conversations (deleteConversation s i s)))
       \<and> selectConversation (deleteConversation s i s) i (deleteConversation s i s)
           = deleteConversation s i s"
proof -
  have none: "find (\<lambda>c. id_c c = i) (filter (\<lambda>c. id_c c \<noteq> i) (conversations s)) = None"
    by (simp add: find_None_iff)
  show ?thesis
    using assms none by (auto simp add: deleteConversation_def selectConversation_def)
qed

text \<open>
  C6, evaluated on the code. On the store with two conversations, the first of them
  current, \<open>deleteConversation\<close> of the current conversation leaves the current
  conversation null and the other conversation in the collection. A
  \<open>selectConversation\<close> of the same identifier that follows through the closure of the
  same render searches that render's collection, finds the deleted conversation and
  makes it current again: the call is not a no-op, and the current conversation is
  outside the collection.
\<close>

theorem delete_then_select_same_render:
  "currentConversation (deleteConversation two_chats (js ''1700000000000'') two_chats) = None
   \<and> conversations (deleteConversation two_chats (js ''1700000000000'') two_chats)
       = [second_chat]
   \<and> selectConversation two_chats (js ''1700000000000'')
        (deleteConversation two_chats (js ''1700000000000'') two_chats)
       = \<lparr>conversations = [second_chat], currentConversation = Some first_chat,
          selectedModel = js ''gpt-4o''\<rparr>
   \<and> selectConversation two_chats (js ''1700000000000'')
        (deleteConversation two_chats (js ''1700000000000'') two_chats)
       \<noteq> deleteConversation two_chats (js ''1700000000000'') two_chats"
proof -
  have d: "deleteConversation two_chats (js ''1700000000000'') two_chats
             = \<lparr>conversations = [second_chat], currentConversation = None,
                selectedModel = js ''gpt-4o''\<rparr>"
    by (simp add: deleteConversation_def two_chats_def first_chat_def second_chat_def js_def)
  have f: "find (\<lambda>c. id_c c = js ''1700000000000'') (conversations two_chats)
             = Some first_chat"
    by (simp add: two_chats_def first_chat_def second_chat_def js_def)
  have m: "model first_chat = js ''gpt-4o''" by (simp add: first_chat_def)
  show ?thesis
    unfolding d by (simp add: selectConversation_def f m)
qed

subsection \<open>Patching the last message\<close>

lemma patch_last_twice:
  assumes "ms' = ms[length ms - 1 := (ms ! (length ms - 1))\<lparr>content := c\<rparr>]"
    and "0 < length ms"
  shows "ms'[length ms' - 1 := (ms' ! (length ms' - 1))\<lparr>content := c\<rparr>] = ms'"
proof -
  from assms have len: "length ms' = length ms" by simp
  from assms have "ms' ! (length ms - 1) = (ms ! (length ms - 1))\<lparr>content := c\<rparr>"
    by simp
  then have "(ms' ! (length ms' - 1))\<lparr>content := c\<rparr> = ms' ! (length ms' - 1)"
    by (simp add: len)
  then show ?thesis by simp
qed

text \<open>The second call through the closure of the same render.\<close>

lemma updateLastMessage_same_render:
  "updateLastMessage r c (updateLastMessage r c s) = updateLastMessage r c s"
  by (cases "currentConversation r")
     (simp_all add: updateLastMessage_def Let_def replaceById_idem)

text \<open>The second call through the closure of a render of the state the first call left.\<close>

lemma updateLastMessage_rerendered:
  "updateLastMessage (updateLastMessage s c s) c (updateLastMessage s c s)
     = updateLastMessage s c s"
proof (cases "currentConversation s")
  case None
  then show ?thesis by (simp add: updateLastMessage_def)
next
  case (Some cur)
  show ?thesis
  proof (cases "0 < length (messages cur)")
    case False
    with Some show ?thesis
      by (simp add: updateLastMessage_def Let_def replaceById_idem)
  next
    case True
    define ms' where
      "ms' = (messages cur)[length (messages cur) - 1 :=
                ((messages cur) ! (length (messages cur) - 1))\<lparr>content := c\<rparr>]"
    have again: "ms'[length ms' - 1 := (ms' ! (length ms' - 1))\<lparr>content := c\<rparr>] = ms'"
      using patch_last_twice [OF ms'_def True] .
    have len: "0 < length ms'" using True by (simp add: ms'_def)
    have once: "updateLastMessage s c s =
        s\<lparr>currentConversation := Some (cur\<lparr>messages := ms'\<rparr>),
          conversations := replaceById (cur\<lparr>messages := ms'\<rparr>) (conversations s)\<rparr>"
      using Some True by (simp add: updateLastMessage_def Let_def ms'_def)
    show ?thesis
      unfolding once
      using len again by (simp add: updateLastMessage_def Let_def replaceById_idem)
  qed
qed

text \<open>
  C7. For every store state and every content value, applying
  \<open>updateLastMessage content\<close> twice gives the same state as applying it once: the message
  sequence of the current conversation and the whole collection are the same. This
  holds when the second call goes through the closure of a render of the state the
  first call left, and when both calls go through the closure of one render \<open>r\<close>,
  whatever the latest state \<open>s\<close> is.
\<close>

theorem updateLastMessage_idempotent:
  "updateLastMessage (updateLastMessage s c s) c (updateLastMessage s c s)
     = updateLastMessage s c s
   \<and> updateLastMessage r c (updateLastMessage r c s) = updateLastMessage r c s"
  using updateLastMessage_rerendered [of s c] updateLastMessage_same_render [of r c s]
  by blast

text \<open>
  On the store with two conversations, the second call leaves the last message of the
  current conversation as the first call set it.
\<close>

theorem updateLastMessage_idempotent_witness:
  "map_option messages (currentConversation
      (updateLastMessage (updateLastMessage two_chats (Text (js ''21 - C'')) two_chats)
         (Text (js ''21 - C''))
         (updateLastMessage two_chats (Text (js ''21 - C'')) two_chats)))
     = Some [user_hi, assistant_answer\<lparr>content := Text (js ''21 - C'')\<rparr>]
   \<and> map_option messages (currentConversation
      (updateLastMessage two_chats (Text (js ''21 - C''))
         (updateLastMessage two_chats (Text (js ''21 - C'')) two_chats)))
     = Some [user_hi, assistant_answer\<lparr>content := Text (js ''21 - C'')\<rparr>]"
proof -
  have "map_option messages (currentConversation
          (updateLastMessage two_chats (Text (js ''21 - C'')) two_chats))
     = Some [user_hi, assistant_answer\<lparr>content := Text (js ''21 - C'')\<rparr>]"
    by (simp add: updateLastMessage_def two_chats_def first_chat_def Let_def)
  with updateLastMessage_idempotent [of two_chats "Text (js ''21 - C'')" two_chats]
  show ?thesis by simp
qed

subsection \<open>Clearing the current conversation\<close>

text \<open>
  C8. \<open>clearCurrentConversation\<close>, called through the closure of a render \<open>r\<close> (for a
  render of the store state itself, \<open>r\<close> is \<open>s\<close>), changes nothing when the current
  conversation of that render is null. Otherwise the current conversation afterwards
  has no messages and the title \<open>New Chat\<close>, with its identifier and model as before;
  in the collection, every entry with that identifier is this cleared conversation and
  every other entry is unchanged, at the same position; the selected model is
  unchanged.
\<close>

theorem clearCurrentConversation_frame:
  "(currentConversation r = None \<longrightarrow> clearCurrentConversation r s = s)
   \<and> (\<forall>cur. currentConversation r = Some cur \<longrightarrow>
        (\<exists>cleared.
            currentConversation (clearCurrentConversation r s) = Some cleared
          \<and> messages cleared = [] \<and> title cleared = js ''New Chat''
          \<and> id_c cleared = id_c cur \<and> model cleared = model cur
          \<and> selectedModel (clearCurrentConversation r s) = selectedModel s
          \<and> length (conversations (clearCurrentConversation r s)) = length (conversations s)
          \<and> (\<forall>k < length (conversations s).
                conversations (clearCurrentConversation r s) ! k
                  = (if id_c (conversations s ! k) = id_c cur then cleared
                     else conversations s ! k))))"
  by (auto simp add: clearCurrentConversation_def Let_def replaceById_def)

theorem clearCurrentConversation_frame_witness:
  "currentConversation two_chats = Some first_chat
   \<and> currentConversation (clearCurrentConversation two_chats two_chats)
       = Some \<lparr>id_c = js ''1700000000000'', title = js ''New Chat'', messages = [],
                model = js ''gpt-4o''\<rparr>
   \<and> conversations (clearCurrentConversation two_chats two_chats)
       = [second_chat,
          \<lparr>id_c = js ''1700000000000'', title = js ''New Chat'', messages = [],
           model = js ''gpt-4o''\<rparr>]
   \<and> clearCurrentConversation initial initial = initial"
proof -
  have h: "currentConversation two_chats = Some first_chat"
    by (simp add: two_chats_def)
  have n: "currentConversation initial = None"
    by (simp add: initial_def)
  from clearCurrentConversation_frame [of two_chats two_chats] h obtain cleared where
    c: "currentConversation (clearCurrentConversation two_chats two_chats) = Some cleared"
    by blast
  have e: "clearCurrentConversation two_chats two_chats =
      \<lparr>conversations = [second_chat,
          \<lparr>id_c = js ''1700000000000'', title = js ''New Chat'', messages = [],
           model = js ''gpt-4o''\<rparr>],
       currentConversation = Some \<lparr>id_c = js ''1700000000000'', title = js ''New Chat'',
           messages = [], model = js ''gpt-4o''\<rparr>,
       selectedModel = js ''gpt-4o''\<rparr>"
    by (simp add: clearCurrentConversation_def two_chats_def first_chat_def second_chat_def
        Let_def replaceById_def js_def)
  from clearCurrentConversation_frame [of initial initial] n
  have "clearCurrentConversation initial initial = initial" by blast
  with h c e show ?thesis by simp
qed

section \<open>Properties of the completion client\<close>

subsection \<open>A 401 response with an error body\<close>

lemma errorMessage_401: "errorMessage coerce response401 = Error (js ''Incorrect API key'')"
  by (simp add: errorMessage_def response401_def body401_def Let_def js_def)

lemma userFacingError_incorrect:
  "userFacingError selModel (js ''Incorrect API key'') = js ''Incorrect API key''"
  by (simp add: userFacingError_def js_def)

text \<open>
  The sibling path: a 401 response whose body is not JSON gives the message
  \<open>HTTP 401: Unauthorized\<close>, and that message is mapped to the invalid-key text.
\<close>

lemma errorMessage_401_no_body:
  "errorMessage coerce (response401\<lparr>json_of := Inl e\<rparr>)
     = Error (js ''HTTP 401: Unauthorized'')"
  by (simp add: errorMessage_def response401_def Let_def digits_below_10 digits_from_10
      digit_def js_def)

lemma userFacingError_status_401:
  "userFacingError selModel (js ''HTTP 401: Unauthorized'')
     = js ''Invalid API key. Please check your API key and try again.''"
  by (simp add: userFacingError_def js_def)

text \<open>
  C2, evaluated on the code. On a response with status 401 and body
  \<open>{"error":{"message":"Incorrect API key"}}\<close>, \<open>chat.completions.create\<close> fails with the
  message \<open>Incorrect API key\<close>, as the claim says. The caller's handler finds none of its
  substrings in that message and shows it as it is: the assistant message it appends is
  the warning sign followed by \<open>Error: Incorrect API key\<close>, and the user-facing string
  does not begin with \<open>Invalid API key\<close>.
\<close>

theorem incorrect_api_key_shown_raw:
  "chat_completions_create coerce fetch401 apiKey options
     = Inl (Error (js ''Incorrect API key''))
   \<and> userFacingError selModel (js ''Incorrect API key'') = js ''Incorrect API key''
   \<and> content (errorReply selModel now (Error (js ''Incorrect API key'')))
       = Text ([0x26A0, 0xFE0F] @ js '' Error: Incorrect API key'')
   \<and> take (length (js ''Invalid API key''))
        (userFacingError selModel (js ''Incorrect API key'')) \<noteq> js ''Invalid API key''"
proof -
  have a: "chat_completions_create coerce fetch401 apiKey options
             = Inl (Error (js ''Incorrect API key''))"
    by (simp add: chat_completions_create_def fetch401_def errorMessage_401)
       (simp add: ok_def response401_def)
  have b: "content (errorReply selModel now (Error (js ''Incorrect API key'')))
       = Text ([0x26A0, 0xFE0F] @ js '' Error: Incorrect API key'')"
    by (simp add: errorReply_def userFacingError_incorrect) (simp add: js_def)
  have c: "take (length (js ''Invalid API key'')) (js ''Incorrect API key'')
             \<noteq> js ''Invalid API key''"
    by (simp add: js_def)
  from a b c show ?thesis by (simp add: userFacingError_incorrect)
qed

subsection \<open>Validating a key\<close>

text \<open>
  C5. \<open>validateApiKey\<close> never fails: it resolves to \<open>true\<close> exactly when the models-listing
  call does not fail, that is when \<open>fetch\<close> resolves with a 2xx response whose body parses,
  and to \<open>false\<close> on every failure (a transport error, a status outside 200 to 299, a
  body that is not JSON). Against an endpoint that answers 401 it resolves to \<open>false\<close>.
\<close>

theorem validateApiKey_total:
  "validateApiKey fetch apiKey = Inr (\<not> isl (models_list fetch apiKey))
   \<and> validateApiKey fetch apiKey
       = Inr (case fetch (modelsRequest apiKey) of
                Rejected e \<Rightarrow> False
              | Resolved r \<Rightarrow> ok r \<and> \<not> isl (json_of r))
   \<and> (\<forall>r. fetch (modelsRequest apiKey) = Resolved r \<longrightarrow> status r = 401
          \<longrightarrow> validateApiKey fetch apiKey = Inr False)"
  by (auto simp add: validateApiKey_def models_list_def ok_def
      split: settled.splits sum.splits)

theorem validateApiKey_total_witness:
  "fetch401 (modelsRequest (js ''bad-key'')) = Resolved response401
   \<and> status response401 = 401
   \<and> validateApiKey fetch401 (js ''bad-key'') = Inr False"
proof -
  have f: "fetch401 (modelsRequest (js ''bad-key'')) = Resolved response401"
    by (simp add: fetch401_def)
  have s: "status response401 = 401" by (simp add: response401_def)
  from validateApiKey_total [of fetch401 "js ''bad-key''"] f s show ?thesis by blast
qed

subsection \<open>The request body\<close>

lemma keys_requestBody:
  "keys (requestBody options) =
     [js ''model'', js ''messages'', js ''max_tokens'']
     @ (if temperature options = None then [] else [js ''temperature''])
     @ (if top_p options = None then [] else [js ''top_p''])
     @ (if frequency_penalty options = None then [] else [js ''frequency_penalty''])
     @ (if presence_penalty options = None then [] else [js ''presence_penalty''])"
  by (cases "temperature options"; cases "top_p options"; cases "frequency_penalty options";
      cases "presence_penalty options")
     (simp_all add: requestBody_def stringify_object_def)

lemma keys_requestBody_claimed: "set (keys (requestBody options)) \<subseteq> set claimed_fields"
  by (auto simp add: keys_requestBody claimed_fields_def)

lemma stream_not_claimed: "js ''stream'' \<notin> set claimed_fields"
  by (simp add: claimed_fields_def js_def)

text \<open>
  C9 (as amended). For every options value, the body \<open>chat.completions.create\<close> sends is a
  JSON object whose fields are, in order, \<open>model\<close>, \<open>messages\<close>, \<open>max_tokens\<close>, and then
  each of \<open>temperature\<close>, \<open>top_p\<close>, \<open>frequency_penalty\<close>, \<open>presence_penalty\<close> that the
  options provide; a field that is absent from the options is absent from the body. No
  other field occurs; in particular \<open>stream\<close> is never forwarded.
\<close>

theorem request_body_fields:
  "body (completionsRequest apiKey options) = Some (requestBody options)
   \<and> keys (requestBody options) =
       [js ''model'', js ''messages'', js ''max_tokens'']
       @ (if temperature options = None then [] else [js ''temperature''])
       @ (if top_p options = None then [] else [js ''top_p''])
       @ (if frequency_penalty options = None then [] else [js ''frequency_penalty''])
       @ (if presence_penalty options = None then [] else [js ''presence_penalty''])
   \<and> set (keys (requestBody options)) \<subseteq> set claimed_fields
   \<and> js ''stream'' \<notin> set (keys (requestBody options))"
  using keys_requestBody_claimed [of options] stream_not_claimed keys_requestBody [of options]
  by (auto simp add: completionsRequest_def)

text \<open>With every optional field provided, the body has the seven fields.\<close>

theorem request_body_fields_witness:
  "keys (requestBody fullOptions) = claimed_fields
   \<and> js ''stream'' \<notin> set (keys (requestBody fullOptions))"
proof -
  note t = request_body_fields [of "js ''sk-test''" fullOptions]
  have opts: "temperature fullOptions \<noteq> None" "top_p fullOptions \<noteq> None"
    "frequency_penalty fullOptions \<noteq> None" "presence_penalty fullOptions \<noteq> None"
    by (simp_all add: fullOptions_def)
  from t have "keys (requestBody fullOptions) =
       [js ''model'', js ''messages'', js ''max_tokens'']
       @ (if temperature fullOptions = None then [] else [js ''temperature''])
       @ (if top_p fullOptions = None then [] else [js ''top_p''])
       @ (if frequency_penalty fullOptions = None then [] else [js ''frequency_penalty''])
       @ (if presence_penalty fullOptions = None then [] else [js ''presence_penalty''])"
    by blast
  with opts have "keys (requestBody fullOptions) = claimed_fields"
    by (simp add: claimed_fields_def)
  moreover from t have "js ''stream'' \<notin> set (keys (requestBody fullOptions))" by blast
  ultimately show ?thesis by blast
qed

text \<open>
  With the options the caller passes (model and messages only), the body has three
  fields, not the seven of the claim.
\<close>

theorem request_body_fields_counterexample:
  "keys (requestBody callerOptions) = [js ''model'', js ''messages'', js ''max_tokens'']
   \<and> set (keys (requestBody callerOptions)) \<noteq> set claimed_fields"
proof -
  have k: "keys (requestBody callerOptions)
             = [js ''model'', js ''messages'', js ''max_tokens'']"
    by (simp add: keys_requestBody) (simp add: callerOptions_def)
  have "js ''temperature'' \<in> set claimed_fields" by (simp add: claimed_fields_def)
  moreover have "js ''temperature'' \<notin> set [js ''model'', js ''messages'', js ''max_tokens'']"
    by (simp add: js_def)
  ultimately show ?thesis using k by metis
qed

lemma max_tokens_key: "js ''max_tokens'' \<noteq> js ''model''" "js ''max_tokens'' \<noteq> js ''messages''"
  by (simp_all add: js_def)

text \<open>
  C10 (as amended). The \<open>max_tokens\<close> field of the body is 4096 when the options give no
  \<open>max_tokens\<close> or give a falsy one (\<open>0\<close> or \<open>NaN\<close>); it is the given value when that is
  finite and not zero; and it is \<open>null\<close> when the given value is an infinity.
\<close>

theorem max_tokens_field:
  "optChain (body (completionsRequest apiKey options)) (js ''max_tokens'') =
     Some (case max_tokens options of
             None \<Rightarrow> JNumber 4096
           | Some (Finite r) \<Rightarrow> if r = 0 then JNumber 4096 else JNumber r
           | Some NaN \<Rightarrow> JNumber 4096
           | Some PosInfinity \<Rightarrow> JNull
           | Some NegInfinity \<Rightarrow> JNull)"
  using max_tokens_key
  by (simp add: completionsRequest_def requestBody_def stringify_object_def or_default_def
      truthy_number_def split: option.splits number.splits)

theorem max_tokens_field_witness:
  "optChain (body (completionsRequest (js ''sk-test'')
                     (fullOptions\<lparr>max_tokens := Some (Finite 0)\<rparr>)))
        (js ''max_tokens'') = Some (JNumber 4096)
   \<and> optChain (body (completionsRequest (js ''sk-test'') fullOptions))
        (js ''max_tokens'') = Some (JNumber 256)
   \<and> optChain (body (completionsRequest (js ''sk-test'') callerOptions))
        (js ''max_tokens'') = Some (JNumber 4096)
   \<and> optChain (body (completionsRequest (js ''sk-test'')
                       (fullOptions\<lparr>max_tokens := Some PosInfinity\<rparr>)))
        (js ''max_tokens'') = Some JNull"
  using max_tokens_field [of "js ''sk-test''" "fullOptions\<lparr>max_tokens := Some (Finite 0)\<rparr>"]
    max_tokens_field [of "js ''sk-test''" fullOptions]
    max_tokens_field [of "js ''sk-test''" callerOptions]
    max_tokens_field [of "js ''sk-test''" "fullOptions\<lparr>max_tokens := Some PosInfinity\<rparr>"]
  by (simp add: fullOptions_def callerOptions_def)

text \<open>
  A \<open>max_tokens\<close> of \<open>NaN\<close> is provided and is not zero, and the body carries 4096.
\<close>

theorem max_tokens_NaN_counterexample:
  "max_tokens (callerOptions\<lparr>max_tokens := Some NaN\<rparr>) = Some NaN
   \<and> NaN \<noteq> Finite 0
   \<and> optChain (body (completionsRequest (js ''sk-test'')
                       (callerOptions\<lparr>max_tokens := Some NaN\<rparr>)))
        (js ''max_tokens'') = Some (JNumber 4096)"
  using max_tokens_key
  by (simp add: completionsRequest_def requestBody_def stringify_object_def or_default_def
      truthy_number_def callerOptions_def)

end
